theory Spec2Isabelle
  imports Main
begin

section \<open>The connection manager (app/main.py, class ConnectionManager)\<close>

text \<open>
  \<^verbatim>\<open>active_connections: Dict[int, Set[WebSocket]]\<close> maps a room id to the set of
  sockets open on that room. A socket is an object whose only use here is its identity,
  so it is a number. A Python set has no duplicates and an iteration order of its own;
  it is a list here, whose order stands for that iteration order: adding an element
  that is already a member does nothing, and removing an element leaves no copy of it.
\<close>

type_synonym WebSocket = nat

type_synonym connections = "int \<Rightarrow> WebSocket list option"

text \<open>
  \<^verbatim>\<open>
  async def connect(self, room_id, websocket):
      await websocket.accept()
      self.active_connections.setdefault(room_id, set()).add(websocket)
  \<close>
\<close>

definition setdefault :: "connections \<Rightarrow> int \<Rightarrow> WebSocket list" where
  "setdefault active_connections room_id =
     (case active_connections room_id of None \<Rightarrow> [] | Some conns \<Rightarrow> conns)"

definition connect :: "connections \<Rightarrow> int \<Rightarrow> WebSocket \<Rightarrow> connections" where
  "connect active_connections room_id websocket =
     active_connections(room_id \<mapsto> List.insert websocket (setdefault active_connections room_id))"

text \<open>
  \<^verbatim>\<open>
  def disconnect(self, room_id, websocket):
      conns = self.active_connections.get(room_id)
      if conns and websocket in conns:
          conns.remove(websocket)
          if not conns:
              self.active_connections.pop(room_id, None)
  \<close>
  \<^verbatim>\<open>conns\<close> is the set object held by the dictionary, so removing from it changes
  the dictionary's entry. An entry that is missing or holds an empty set is falsy and
  nothing is done.
\<close>

definition disconnect :: "connections \<Rightarrow> int \<Rightarrow> WebSocket \<Rightarrow> connections" where
  "disconnect active_connections room_id websocket =
     (case active_connections room_id of
        None \<Rightarrow> active_connections
      | Some conns \<Rightarrow>
          if conns = [] then active_connections
          else if websocket \<in> set conns then
            (if removeAll websocket conns = []
             then active_connections(room_id := None)
             else active_connections(room_id \<mapsto> removeAll websocket conns))
          else active_connections)"

text \<open>
  \<^verbatim>\<open>
  async def broadcast(self, room_id, message):
      for ws in list(self.active_connections.get(room_id, [])):
          try:
              await ws.send_json(message)
          except Exception:
              self.disconnect(room_id, ws)
  \<close>
  The loop runs over a copy of the room's set taken before the first send. Whether
  \<^verbatim>\<open>send_json\<close> raises on a socket is decided by the network: it is the parameter
  \<open>send_ok\<close>. The model returns the dictionary after the loop and the list of
  deliveries that were made, in the order of the loop.
\<close>

fun broadcast_loop ::
  "(WebSocket \<Rightarrow> bool) \<Rightarrow> connections \<Rightarrow> int \<Rightarrow> 'm \<Rightarrow> WebSocket list \<Rightarrow>
   connections \<times> (WebSocket \<times> 'm) list" where
  "broadcast_loop send_ok active_connections room_id message [] = (active_connections, [])"
| "broadcast_loop send_ok active_connections room_id message (ws # rest) =
     (if send_ok ws then
        (case broadcast_loop send_ok active_connections room_id message rest of
           (ac, sent) \<Rightarrow> (ac, (ws, message) # sent))
      else broadcast_loop send_ok (disconnect active_connections room_id ws) room_id message rest)"

definition broadcast ::
  "(WebSocket \<Rightarrow> bool) \<Rightarrow> connections \<Rightarrow> int \<Rightarrow> 'm \<Rightarrow> connections \<times> (WebSocket \<times> 'm) list" where
  "broadcast send_ok active_connections room_id message =
     broadcast_loop send_ok active_connections room_id message
       (setdefault active_connections room_id)"

text \<open>
  The registry's operations as data, to speak about every sequence of them. A broadcast
  carries the outcome of its sends.
\<close>

datatype manager_op =
    Connect int WebSocket
  | Disconnect int WebSocket
  | Broadcast int "WebSocket \<Rightarrow> bool"

fun apply_op :: "connections \<Rightarrow> manager_op \<Rightarrow> connections" where
  "apply_op ac (Connect room_id ws) = connect ac room_id ws"
| "apply_op ac (Disconnect room_id ws) = disconnect ac room_id ws"
| "apply_op ac (Broadcast room_id send_ok) = fst (broadcast send_ok ac room_id ())"

fun apply_ops :: "connections \<Rightarrow> manager_op list \<Rightarrow> connections" where
  "apply_ops ac [] = ac"
| "apply_ops ac (op # ops) = apply_ops (apply_op ac op) ops"

text \<open>The manager starts with \<^verbatim>\<open>self.active_connections = {}\<close>.\<close>

definition manager_init :: connections where
  "manager_init = Map.empty"

definition no_empty_room :: "connections \<Rightarrow> bool" where
  "no_empty_room ac = (\<forall>room_id. ac room_id \<noteq> Some [])"

definition sessions :: "connections \<Rightarrow> int \<Rightarrow> WebSocket set" where
  "sessions ac room_id = set (setdefault ac room_id)"

section \<open>Chat names (app/main.py, CHAT_NAMES)\<close>

text \<open>
  The 28 names of the source. A character of a string is a byte here, so the accented
  letters are written as their UTF-8 bytes; the claims use the names only up to
  equality.
\<close>

definition CHAT_NAMES :: "string list" where
  "CHAT_NAMES =
    [''Karla Rodr'' @ [CHR 0xC3, CHR 0xAD] @ ''guez'',
     ''Jorge M'' @ [CHR 0xC3, CHR 0xA9] @ ''ndez'',
     ''Diego Fern'' @ [CHR 0xC3, CHR 0xA1] @ ''ndez'',
     ''Sof'' @ [CHR 0xC3, CHR 0xAD] @ ''a Castillo'',
     ''Valeria Jim'' @ [CHR 0xC3, CHR 0xA9] @ ''nez'',
     ''Andr'' @ [CHR 0xC3, CHR 0xA9] @ ''s Navarro'',
     ''Mariana Solano'',
     ''Luis Pineda'',
     ''Camila Herrera'',
     ''Fernando Rojas'',
     ''Laura Chac'' @ [CHR 0xC3, CHR 0xB3] @ ''n'',
     ''Daniel Salas'',
     ''Gabriela Montoya'',
     ''Pablo Araya'',
     ''Natalia Cordero'',
     ''Ricardo Vargas'',
     ''Alejandra Pacheco'',
     ''Sebasti'' @ [CHR 0xC3, CHR 0xA1] @ ''n Quesada'',
     ''M'' @ [CHR 0xC3, CHR 0xB3] @ ''nica Zamora'',
     ''Javier Aguirre'',
     ''Paola Segura'',
     ''Mart'' @ [CHR 0xC3, CHR 0xAD] @ ''n Esquivel'',
     ''Luc'' @ [CHR 0xC3, CHR 0xAD] @ ''a Morales'',
     ''Cristian Barboza'',
     ''Andrea C'' @ [CHR 0xC3, CHR 0xA9] @ ''spedes'',
     ''Felipe Mar'' @ [CHR 0xC3, CHR 0xAD] @ ''n'',
     ''Daniela Campos'',
     ''Marco Leiva'']"

text \<open>
  Python's \<^verbatim>\<open>xs[i]\<close>: a negative index counts from the end, and an index outside
  the list raises IndexError. \<^verbatim>\<open>a % n\<close> raises ZeroDivisionError for \<^verbatim>\<open>n = 0\<close>
  and otherwise has the sign of \<^verbatim>\<open>n\<close>, as \<open>mod\<close> on \<open>int\<close> has.
\<close>

datatype py_error =
    IndexError | ZeroDivisionError | IntegrityError | OverflowError | RuntimeError | TypeError

definition py_mod :: "int \<Rightarrow> int \<Rightarrow> py_error + int" where
  "py_mod a n = (if n = 0 then Inl ZeroDivisionError else Inr (a mod n))"

definition py_getitem :: "'a list \<Rightarrow> int \<Rightarrow> py_error + 'a" where
  "py_getitem xs i =
     (if 0 \<le> i \<and> i < int (length xs) then Inr (xs ! nat i)
      else if i < 0 \<and> - int (length xs) \<le> i then Inr (xs ! nat (int (length xs) + i))
      else Inl IndexError)"

text \<open>
  \<^verbatim>\<open>
  name_index = (conv.id - 1) % len(CHAT_NAMES)
  conv.name = CHAT_NAMES[name_index]
  \<close>
  with the list as a parameter, and at the source's list.
\<close>

definition assign_name :: "string list \<Rightarrow> int \<Rightarrow> py_error + string" where
  "assign_name catalog conv_id =
     (case py_mod (conv_id - 1) (int (length catalog)) of
        Inl e \<Rightarrow> Inl e
      | Inr name_index \<Rightarrow> py_getitem catalog name_index)"

definition chat_name :: "int \<Rightarrow> py_error + string" where
  "chat_name conv_id = assign_name CHAT_NAMES conv_id"

section \<open>The tables (app/db.py)\<close>

text \<open>
  The three mapped classes, a row of each as a record. The primary key \<^verbatim>\<open>id\<close> of each
  table has a prefixed name (\<open>id\<close> is the identity function of HOL), and so have the
  other columns, so that the handlers' parameters keep the names of the source.
  \<^verbatim>\<open>created_at\<close> of a conversation is never read and is left out; a timestamp is a
  number, and the server's \<^verbatim>\<open>now()\<close> is the parameter \<open>now\<close> of a handler.
  \<^verbatim>\<open>status\<close> is a string column whose default is \<^verbatim>\<open>"sent"\<close>, \<^verbatim>\<open>is_read\<close> a
  boolean column whose default is \<^verbatim>\<open>False\<close>.
\<close>

record Conversation =
  conv_id :: int
  conv_name :: "string option"

record ConversationParticipant =
  cp_id :: int
  cp_conversation_id :: int
  cp_user_id :: string

record Message =
  msg_id :: int
  msg_conversation_id :: int
  msg_sender_id :: string
  msg_content :: string
  msg_timestamp :: nat
  msg_status :: string
  msg_is_read :: bool

record database =
  conversations :: "Conversation list"
  participants :: "ConversationParticipant list"
  messages :: "Message list"

text \<open>
  An integer primary key that is not given gets the next number of its table: one more
  than the largest in use, and 1 in an empty table. (Only when the largest id of the
  64-bit range is in use does SQLite pick another unused id; the service writes no such
  row, and the model does not follow tables that hold one.)
\<close>

definition next_id :: "int list \<Rightarrow> int" where
  "next_id ids = (case ids of [] \<Rightarrow> 1 | x # xs \<Rightarrow> fold max xs x + 1)"

text \<open>
  A Python \<^verbatim>\<open>int\<close> is unbounded, and the path parameters \<^verbatim>\<open>conversation_id\<close>,
  \<^verbatim>\<open>message_id\<close> and \<^verbatim>\<open>room_id\<close> are declared \<^verbatim>\<open>int\<close> with no bound. An
  INTEGER of SQLite is a signed 64-bit number: binding an \<^verbatim>\<open>int\<close> outside that range
  to a statement raises OverflowError, before the statement runs.
\<close>

definition in_int64 :: "int \<Rightarrow> bool" where
  "in_int64 n = (- 9223372036854775808 \<le> n \<and> n \<le> 9223372036854775807)"

text \<open>
  The constraint \<^verbatim>\<open>UniqueConstraint("conversation_id", "user_id", name="uq_conv_user")\<close>:
  inserting a participant row whose pair is in the table already raises IntegrityError.
  The foreign keys are declared with no check in the handlers; the engine of the default
  \<^verbatim>\<open>DATABASE_URL\<close> (SQLite) does not enforce them, and the model does not either: a
  row may name a conversation that the table does not hold. Where a statement needs the
  participants' foreign key, it is the hypothesis \<open>participants_reference\<close>.
\<close>

definition insert_participant ::
  "ConversationParticipant list \<Rightarrow> int \<Rightarrow> string \<Rightarrow> py_error + ConversationParticipant list" where
  "insert_participant rows conversation_id user_id =
     (if (conversation_id, user_id) \<in> set (map (\<lambda>p. (cp_conversation_id p, cp_user_id p)) rows)
      then Inl IntegrityError
      else Inr (rows @ [\<lparr>cp_id = next_id (map cp_id rows),
                          cp_conversation_id = conversation_id, cp_user_id = user_id\<rparr>]))"

definition participants_reference :: "database \<Rightarrow> bool" where
  "participants_reference db =
     (set (map cp_conversation_id (participants db)) \<subseteq> set (map conv_id (conversations db)))"

text \<open>
  \<^verbatim>\<open>Message(conversation_id=..., sender_id=..., content=...)\<close> added and committed: the
  row gets its id, the server's time, and the defaults of \<^verbatim>\<open>status\<close> and
  \<^verbatim>\<open>is_read\<close>; \<^verbatim>\<open>send_message\<close> writes \<^verbatim>\<open>status="sent"\<close> itself, which is the
  default.
\<close>

definition new_message :: "database \<Rightarrow> nat \<Rightarrow> int \<Rightarrow> string \<Rightarrow> string \<Rightarrow> Message" where
  "new_message db now conversation_id sender_id content =
     \<lparr>msg_id = next_id (map msg_id (messages db)), msg_conversation_id = conversation_id,
      msg_sender_id = sender_id, msg_content = content, msg_timestamp = now,
      msg_status = ''sent'', msg_is_read = False\<rparr>"

definition add_message :: "database \<Rightarrow> Message \<Rightarrow> database" where
  "add_message db msg = db\<lparr>messages := messages db @ [msg]\<rparr>"

text \<open>
  \<^verbatim>\<open>
  db.query(ConversationParticipant).filter(
      ConversationParticipant.conversation_id == conversation_id,
      ConversationParticipant.user_id == user_id).first()
  \<close>
\<close>

definition participant_row :: "database \<Rightarrow> int \<Rightarrow> string \<Rightarrow> ConversationParticipant option" where
  "participant_row db conversation_id user_id =
     find (\<lambda>p. cp_conversation_id p = conversation_id \<and> cp_user_id p = user_id) (participants db)"

section \<open>The handlers (app/main.py)\<close>

text \<open>
  A handler's result: what the caller receives (an HTTP error or the response), the
  tables and the connection manager after the call, and the deliveries made on the live
  channel. The payload dictionaries of the source are the constructors of \<open>payload\<close>.
\<close>

datatype http_error =
    HTTP_400_BAD_REQUEST
  | HTTP_403_FORBIDDEN
  | HTTP_404_NOT_FOUND
  | HTTP_500_INTERNAL_SERVER_ERROR

datatype payload =
    SentPayload int string string nat string
  | ChatPayload int string string string nat string
  | ReadPayload int string nat
  | ErrorPayload string

record 'r outcome =
  response :: "http_error + 'r"
  db_after :: database
  manager_after :: connections
  delivered :: "(WebSocket \<times> payload) list"

subsection \<open>create_conversation\<close>

record CreateConversationIn =
  participantId :: string
  currentUserId :: string
  initialMessage :: "string option"

text \<open>
  \<^verbatim>\<open>
  subquery = (db.query(ConversationParticipant.conversation_id,
                       func.count(ConversationParticipant.user_id.distinct()).label('user_count'))
      .filter(ConversationParticipant.user_id.in_([payload.currentUserId, payload.participantId]))
      .group_by(ConversationParticipant.conversation_id).subquery())
  existing_conv = (db.query(Conversation)
      .join(subquery, Conversation.id == subquery.c.conversation_id)
      .filter(subquery.c.user_count == 2).first())
  \<close>
  \<open>user_count\<close> is the subquery's count for one conversation: the number of distinct
  user ids among its participant rows whose user is one of the two. The query has no
  ORDER BY; \<^verbatim>\<open>first()\<close> is the first such conversation in the table's order.
\<close>

definition user_count :: "database \<Rightarrow> string \<Rightarrow> string \<Rightarrow> int \<Rightarrow> nat" where
  "user_count db current_user participant conversation_id =
     length (remdups (map cp_user_id
       (filter (\<lambda>p. cp_conversation_id p = conversation_id \<and>
                     cp_user_id p \<in> set [current_user, participant])
          (participants db))))"

definition existing_conv :: "database \<Rightarrow> CreateConversationIn \<Rightarrow> Conversation option" where
  "existing_conv db payload =
     find (\<lambda>c. user_count db (currentUserId payload) (participantId payload) (conv_id c) = 2)
       (conversations db)"

text \<open>
  The rest of the \<^verbatim>\<open>try\<close> block, when no conversation was found: the new
  conversation is flushed and gets its id, the two participant rows and the initial
  message (when the payload has a non-empty one) are added, the name is computed from
  the id, and the commit writes everything. The result is the exception raised or the
  tables after the commit and the \<^verbatim>\<open>{"id": conv.id, "name": conv.name}\<close> returned.
\<close>

definition create_new :: "nat \<Rightarrow> database \<Rightarrow> CreateConversationIn \<Rightarrow> py_error + (database \<times> Conversation)" where
  "create_new now db payload =
     (let new_id = next_id (map conv_id (conversations db)) in
      case chat_name new_id of
        Inl e \<Rightarrow> Inl e
      | Inr name \<Rightarrow>
         (case insert_participant (participants db) new_id (participantId payload) of
            Inl e \<Rightarrow> Inl e
          | Inr rows1 \<Rightarrow>
             (case insert_participant rows1 new_id (currentUserId payload) of
                Inl e \<Rightarrow> Inl e
              | Inr rows2 \<Rightarrow>
                 (let conv = \<lparr>conv_id = new_id, conv_name = Some name\<rparr>;
                      db1 = db\<lparr>conversations := conversations db @ [conv], participants := rows2\<rparr>;
                      db2 = (case initialMessage payload of
                               None \<Rightarrow> db1
                             | Some initial \<Rightarrow>
                                 if initial = [] then db1
                                 else add_message db1
                                        (new_message db1 now new_id (currentUserId payload) initial))
                  in Inr (db2, conv)))))"

text \<open>
  \<^verbatim>\<open>
  try:
      ...
      if existing_conv:
          return existing_conv
      ...
      return {"id": conv.id, "name": conv.name}
  except Exception as e:
      db.rollback()
      raise HTTPException(status_code=500, ...)
  \<close>
  An exception of the block rolls the session back: nothing of the call is written.
\<close>

definition create_conversation ::
  "nat \<Rightarrow> database \<Rightarrow> CreateConversationIn \<Rightarrow> (http_error + Conversation) \<times> database" where
  "create_conversation now db payload =
     (case existing_conv db payload of
        Some conv \<Rightarrow> (Inr conv, db)
      | None \<Rightarrow>
         (case create_new now db payload of
            Inl e \<Rightarrow> (Inl HTTP_500_INTERNAL_SERVER_ERROR, db)
          | Inr (db', conv) \<Rightarrow> (Inr conv, db')))"

text \<open>The users of a conversation, as its participant rows give them.\<close>

definition participant_set :: "database \<Rightarrow> int \<Rightarrow> string set" where
  "participant_set db conversation_id =
     set (map cp_user_id (filter (\<lambda>p. cp_conversation_id p = conversation_id) (participants db)))"

subsection \<open>send_message\<close>

record MessageCreate =
  body_content :: string
  body_sender_id :: string

text \<open>
  \<^verbatim>\<open>
  participant = db.query(ConversationParticipant).filter(...).first()
  if not participant:
      raise HTTPException(status_code=status.HTTP_403_FORBIDDEN, ...)
  msg = Message(conversation_id=conversation_id, sender_id=body.sender_id,
                content=body.content, status="sent")
  db.add(msg); db.commit(); db.refresh(msg)
  payload = {"id": msg.id, "sender_id": ..., "content": ..., "timestamp": ..., "status": ...}
  anyio.from_thread.run(manager.broadcast, conversation_id, payload)
  return msg
  \<close>
  The body is the pydantic model \<^verbatim>\<open>MessageCreate\<close>, whose two fields are plain
  \<^verbatim>\<open>str\<close> with no constraint: every pair of strings is a body the handler receives.
  The handler is a plain \<^verbatim>\<open>def\<close>, which the framework runs in a worker thread, from
  where \<^verbatim>\<open>anyio.from_thread.run\<close> runs the broadcast on the event loop.
  The participant query binds \<^verbatim>\<open>conversation_id\<close>; the handler has no
  \<^verbatim>\<open>try\<close>, so the OverflowError of an id outside the 64-bit range leaves the handler
  and the framework answers 500.
\<close>

definition send_message ::
  "(WebSocket \<Rightarrow> bool) \<Rightarrow> nat \<Rightarrow> database \<Rightarrow> connections \<Rightarrow> int \<Rightarrow> MessageCreate \<Rightarrow> Message outcome" where
  "send_message send_ok now db manager conversation_id body =
     (if in_int64 conversation_id then
        (case participant_row db conversation_id (body_sender_id body) of
           None \<Rightarrow>
             \<lparr>response = Inl HTTP_403_FORBIDDEN, db_after = db, manager_after = manager,
              delivered = []\<rparr>
         | Some participant \<Rightarrow>
             (let msg = new_message db now conversation_id (body_sender_id body) (body_content body);
                  sent = broadcast send_ok manager conversation_id
                           (SentPayload (msg_id msg) (msg_sender_id msg) (msg_content msg)
                              (msg_timestamp msg) (msg_status msg))
              in \<lparr>response = Inr msg, db_after = add_message db msg,
                  manager_after = fst sent, delivered = snd sent\<rparr>))
      else
        \<lparr>response = Inl HTTP_500_INTERNAL_SERVER_ERROR, db_after = db, manager_after = manager,
         delivered = []\<rparr>)"

subsection \<open>mark_conversation_read\<close>

text \<open>
  \<^verbatim>\<open>
  result = db.query(Message).filter(
      Message.conversation_id == conversation_id,
      Message.sender_id != user_id,
      Message.is_read == False
  ).update({Message.is_read: True, Message.status: 'read'}, synchronize_session=False)
  \<close>
  One UPDATE statement: \<open>to_mark\<close> is its WHERE clause, \<open>mark_read\<close> the tables after
  it, \<open>marked_count\<close> the number of rows it matched, which is what \<^verbatim>\<open>update\<close>
  returns.
\<close>

definition to_mark :: "int \<Rightarrow> string \<Rightarrow> Message \<Rightarrow> bool" where
  "to_mark conversation_id user_id m =
     (msg_conversation_id m = conversation_id \<and> msg_sender_id m \<noteq> user_id \<and> msg_is_read m = False)"

definition mark_read :: "database \<Rightarrow> int \<Rightarrow> string \<Rightarrow> database" where
  "mark_read db conversation_id user_id =
     db\<lparr>messages :=
          map (\<lambda>m. if to_mark conversation_id user_id m
                    then m\<lparr>msg_is_read := True, msg_status := ''read''\<rparr> else m)
            (messages db)\<rparr>"

definition marked_count :: "database \<Rightarrow> int \<Rightarrow> string \<Rightarrow> nat" where
  "marked_count db conversation_id user_id =
     length (filter (to_mark conversation_id user_id) (messages db))"

text \<open>
  What is raised inside the \<^verbatim>\<open>try\<close> block of the handler: an HTTPException of the
  handler's own, or an error of the interpreter or a library.
\<close>

datatype raised = HTTPException http_error | Error py_error

record read_response =
  resp_ok :: bool
  updated_count :: nat
  resp_conversation_id :: int

text \<open>
  The \<^verbatim>\<open>try\<close> block (lines 335 to 382):
  \<^verbatim>\<open>
  conversation = db.query(Conversation).filter(Conversation.id == conversation_id).first()
  if not conversation:
      raise HTTPException(status_code=status.HTTP_404_NOT_FOUND, ...)
  participant = db.query(ConversationParticipant).filter(...).first()
  if not participant:
      raise HTTPException(status_code=status.HTTP_403_FORBIDDEN, ...)
  result = ... .update(...)
  db.commit()
  if result > 0:
      payload = {"type": "messages_read", "conversation_id": ..., "user_id": ..., "count": result}
      await anyio.from_thread.run(manager.broadcast, conversation_id, payload)
  return {"ok": True, "updated_count": result, "conversation_id": conversation_id}
  \<close>
  The handler is a coroutine (\<^verbatim>\<open>async def\<close>), which the framework runs on the event
  loop itself. \<^verbatim>\<open>anyio.from_thread.run\<close> is the call for worker threads that
  \<^verbatim>\<open>send_message\<close> makes; it returns what the function it runs returns, and
  \<^verbatim>\<open>manager.broadcast\<close> returns \<^verbatim>\<open>None\<close>. So the line raises in every case: outside
  a worker thread the call raises RuntimeError before anything is sent (\<open>bc_ran = False\<close>),
  and were the broadcast run (\<open>bc_ran = True\<close>), awaiting its \<^verbatim>\<open>None\<close> raises TypeError.
  Which of the two happens is anyio's business, so \<open>bc_ran\<close> is a parameter. The commit
  comes before the line: the update is written in both cases. The first query binds
  \<^verbatim>\<open>conversation_id\<close> and raises OverflowError for an id outside the 64-bit range.
\<close>

definition mark_conversation_read_try ::
  "bool \<Rightarrow> (WebSocket \<Rightarrow> bool) \<Rightarrow> database \<Rightarrow> connections \<Rightarrow> int \<Rightarrow> string \<Rightarrow>
   (raised + read_response) \<times> database \<times> connections \<times> (WebSocket \<times> payload) list" where
  "mark_conversation_read_try bc_ran send_ok db manager conversation_id user_id =
     (if in_int64 conversation_id then
      case find (\<lambda>c. conv_id c = conversation_id) (conversations db) of
        None \<Rightarrow> (Inl (HTTPException HTTP_404_NOT_FOUND), db, manager, [])
      | Some conversation \<Rightarrow>
         (case participant_row db conversation_id user_id of
            None \<Rightarrow> (Inl (HTTPException HTTP_403_FORBIDDEN), db, manager, [])
          | Some participant \<Rightarrow>
             (let result = marked_count db conversation_id user_id;
                  db' = mark_read db conversation_id user_id
              in if result > 0 then
                   (if bc_ran then
                      (let sent = broadcast send_ok manager conversation_id
                                    (ReadPayload conversation_id user_id result)
                       in (Inl (Error TypeError), db', fst sent, snd sent))
                    else (Inl (Error RuntimeError), db', manager, []))
                 else (Inr \<lparr>resp_ok = True, updated_count = result, resp_conversation_id = conversation_id\<rparr>,
                       db', manager, [])))
      else (Inl (Error OverflowError), db, manager, []))"

text \<open>
  The handler: the check of \<^verbatim>\<open>user_id\<close> (a query parameter whose default is
  \<^verbatim>\<open>None\<close>) comes before the \<^verbatim>\<open>try\<close>; then
  \<^verbatim>\<open>
  except Exception as e:
      db.rollback()
      raise HTTPException(status_code=status.HTTP_500_INTERNAL_SERVER_ERROR, ...)
  \<close>
  catches whatever the block raised, the block's own HTTPExceptions included (HTTPException
  is a subclass of Exception), and raises the 500 in its place. The rollback undoes what
  was not committed; the block writes nothing before its commit.
\<close>

definition mark_conversation_read ::
  "bool \<Rightarrow> (WebSocket \<Rightarrow> bool) \<Rightarrow> database \<Rightarrow> connections \<Rightarrow> int \<Rightarrow> string option \<Rightarrow>
   read_response outcome" where
  "mark_conversation_read bc_ran send_ok db manager conversation_id user_id =
     (case user_id of
        None \<Rightarrow> \<lparr>response = Inl HTTP_400_BAD_REQUEST, db_after = db, manager_after = manager,
                 delivered = []\<rparr>
      | Some uid \<Rightarrow>
          if uid = [] then
            \<lparr>response = Inl HTTP_400_BAD_REQUEST, db_after = db, manager_after = manager,
             delivered = []\<rparr>
          else
            (case mark_conversation_read_try bc_ran send_ok db manager conversation_id uid of
               (Inl e, db', manager', sent) \<Rightarrow>
                 \<lparr>response = Inl HTTP_500_INTERNAL_SERVER_ERROR, db_after = db',
                  manager_after = manager', delivered = sent\<rparr>
             | (Inr r, db', manager', sent) \<Rightarrow>
                 \<lparr>response = Inr r, db_after = db', manager_after = manager', delivered = sent\<rparr>))"

subsection \<open>update_message_status\<close>

text \<open>
  \<^verbatim>\<open>
  msg = db.get(Message, message_id)
  if not msg:
      raise HTTPException(status_code=404, detail="Message not found")
  msg.status = status
  db.commit()
  return {"ok": True}
  \<close>
  The commit is an UPDATE of the row with this primary key. \<^verbatim>\<open>db.get\<close> binds
  \<^verbatim>\<open>message_id\<close>; the handler has no \<^verbatim>\<open>try\<close>, so an id outside the 64-bit range
  is answered 500.
\<close>

definition update_message_status :: "database \<Rightarrow> int \<Rightarrow> string \<Rightarrow> (http_error + bool) \<times> database" where
  "update_message_status db message_id status =
     (if in_int64 message_id then
        (case find (\<lambda>m. msg_id m = message_id) (messages db) of
           None \<Rightarrow> (Inl HTTP_404_NOT_FOUND, db)
         | Some msg \<Rightarrow>
             (Inr True,
              db\<lparr>messages := map (\<lambda>m. if msg_id m = message_id then m\<lparr>msg_status := status\<rparr> else m)
                                 (messages db)\<rparr>))
      else (Inl HTTP_500_INTERNAL_SERVER_ERROR, db))"

subsection \<open>websocket_endpoint\<close>

text \<open>
  One turn of the \<^verbatim>\<open>while True\<close> loop, for one JSON object received:
  \<^verbatim>\<open>
  content = data.get("content")
  sender_id = data.get("sender_id")
  if not content or not sender_id:
      await websocket.send_json({"error": "content and sender_id required"})
      continue
  msg = Message(conversation_id=room_id, sender_id=sender_id, content=content)
  db.add(msg); db.commit(); db.refresh(msg)
  payload = {"id": msg.id, "sender": sender_id, "sender_id": sender_id, ...}
  await manager.broadcast(room_id, payload)
  \<close>
  \<^verbatim>\<open>data.get\<close> gives \<^verbatim>\<open>None\<close> for a missing key, and \<^verbatim>\<open>None\<close> and the empty
  string are falsy. The two values are strings here, as the handler expects them
  (\<^verbatim>\<open># Esperamos: { id, room_id, sender_id, content, timestamp }\<close>); an event whose
  content or sender is another JSON value is not an input of the model. When the reply
  on the socket itself fails, the exception leaves the loop: the \<^verbatim>\<open>except\<close> clauses
  disconnect the socket. The INSERT of the commit binds \<^verbatim>\<open>room_id\<close>: for a room id
  outside the 64-bit range the commit raises OverflowError, nothing is written, and
  \<^verbatim>\<open>except Exception\<close> disconnects the socket and raises again.
\<close>

record inbound =
  in_content :: "string option"
  in_sender_id :: "string option"

datatype ws_turn = Persisted Message | Replied | Closed

definition falsy :: "string option \<Rightarrow> bool" where
  "falsy v = (case v of None \<Rightarrow> True | Some s \<Rightarrow> s = [])"

record ws_outcome =
  turn :: ws_turn
  ws_db_after :: database
  ws_manager_after :: connections
  ws_delivered :: "(WebSocket \<times> payload) list"

definition websocket_receive ::
  "(WebSocket \<Rightarrow> bool) \<Rightarrow> nat \<Rightarrow> database \<Rightarrow> connections \<Rightarrow> WebSocket \<Rightarrow> int \<Rightarrow> inbound \<Rightarrow> ws_outcome" where
  "websocket_receive send_ok now db manager websocket room_id data =
     (if falsy (in_content data) \<or> falsy (in_sender_id data) then
        (if send_ok websocket then
           \<lparr>turn = Replied, ws_db_after = db, ws_manager_after = manager,
            ws_delivered = [(websocket, ErrorPayload ''content and sender_id required'')]\<rparr>
         else
           \<lparr>turn = Closed, ws_db_after = db,
            ws_manager_after = disconnect manager room_id websocket, ws_delivered = []\<rparr>)
      else if in_int64 room_id then
        (let msg = new_message db now room_id (the (in_sender_id data)) (the (in_content data));
             sent = broadcast send_ok manager room_id
                      (ChatPayload (msg_id msg) (the (in_sender_id data)) (the (in_sender_id data))
                         (msg_content msg) (msg_timestamp msg) (msg_status msg))
         in \<lparr>turn = Persisted msg, ws_db_after = add_message db msg,
             ws_manager_after = fst sent, ws_delivered = snd sent\<rparr>)
      else
        \<lparr>turn = Closed, ws_db_after = db,
         ws_manager_after = disconnect manager room_id websocket, ws_delivered = []\<rparr>)"

subsection \<open>The status of a message\<close>

text \<open>
  The three values of \<^verbatim>\<open>status\<close> (\<^verbatim>\<open># sent | delivered | read\<close>) in their order, and
  the relation of the two columns: \<^verbatim>\<open>is_read\<close> is true exactly when the status is
  \<^verbatim>\<open>"read"\<close>.
\<close>

definition status_rank :: "string \<Rightarrow> nat option" where
  "status_rank s =
     (if s = ''sent'' then Some 0
      else if s = ''delivered'' then Some 1
      else if s = ''read'' then Some 2
      else None)"

definition read_flag_ok :: "Message \<Rightarrow> bool" where
  "read_flag_ok m = (msg_is_read m = (msg_status m = ''read''))"

definition message_ok :: "Message \<Rightarrow> bool" where
  "message_ok m = (status_rank (msg_status m) \<noteq> None \<and> read_flag_ok m)"

definition not_regressed :: "Message \<Rightarrow> Message \<Rightarrow> bool" where
  "not_regressed before after =
     (msg_id after = msg_id before \<and>
      (case (status_rank (msg_status before), status_rank (msg_status after)) of
         (Some i, Some j) \<Rightarrow> i \<le> j
       | _ \<Rightarrow> False))"

text \<open>
  One step of the message table: no row is dropped or moved, every row after the step
  has a status of the three whose \<^verbatim>\<open>is_read\<close> agrees with it, and every row of
  before is the same message with a status that is not earlier in the order.
\<close>

definition lifecycle_step :: "database \<Rightarrow> database \<Rightarrow> bool" where
  "lifecycle_step db db' =
     (length (messages db) \<le> length (messages db')
      \<and> list_all message_ok (messages db')
      \<and> list_all2 not_regressed (messages db) (take (length (messages db)) (messages db')))"

subsection \<open>Conversations of two\<close>

text \<open>
  Every writer of the participants table (\<^verbatim>\<open>create_conversation\<close>,
  \<^verbatim>\<open>ensure_demo_conversations\<close> and the seeding script) adds exactly two rows, to a
  conversation that it has just created, and nothing adds a row to an older conversation
  or deletes one: in the tables the service works on, a conversation has at most two
  participants. \<open>pair_count\<close> is the number of conversations whose participants are
  exactly the two users; \<open>swapped\<close> is the payload with the two users exchanged.
\<close>

definition two_party :: "database \<Rightarrow> bool" where
  "two_party db =
     list_all (\<lambda>c. card (participant_set db (conv_id c)) \<le> 2) (conversations db)"

definition pair_count :: "database \<Rightarrow> string \<Rightarrow> string \<Rightarrow> nat" where
  "pair_count db a b =
     length (filter (\<lambda>c. participant_set db (conv_id c) = {a, b}) (conversations db))"

definition swapped :: "CreateConversationIn \<Rightarrow> CreateConversationIn" where
  "swapped payload =
     payload\<lparr>participantId := currentUserId payload, currentUserId := participantId payload\<rparr>"

subsection \<open>States used in the examples\<close>

text \<open>
  \<open>db_pair\<close>: conversation 7 between A and B with one unread message from A.
  \<open>db_trio\<close>: conversation 1 with the three participants A, B and C.
\<close>

definition msg_hello :: Message where
  "msg_hello =
     \<lparr>msg_id = 1, msg_conversation_id = 7, msg_sender_id = ''A'', msg_content = ''hello'',
      msg_timestamp = 1, msg_status = ''sent'', msg_is_read = False\<rparr>"

definition db_pair :: database where
  "db_pair =
     \<lparr>conversations = [\<lparr>conv_id = 7, conv_name = Some ''Mariana Solano''\<rparr>],
      participants = [\<lparr>cp_id = 1, cp_conversation_id = 7, cp_user_id = ''A''\<rparr>,
                      \<lparr>cp_id = 2, cp_conversation_id = 7, cp_user_id = ''B''\<rparr>],
      messages = [msg_hello]\<rparr>"

definition db_trio :: database where
  "db_trio =
     \<lparr>conversations = [\<lparr>conv_id = 1, conv_name = None\<rparr>],
      participants = [\<lparr>cp_id = 1, cp_conversation_id = 1, cp_user_id = ''A''\<rparr>,
                      \<lparr>cp_id = 2, cp_conversation_id = 1, cp_user_id = ''B''\<rparr>,
                      \<lparr>cp_id = 3, cp_conversation_id = 1, cp_user_id = ''C''\<rparr>],
      messages = []\<rparr>"

definition db_empty :: database where
  "db_empty = \<lparr>conversations = [], participants = [], messages = []\<rparr>"

section \<open>Properties of the connection manager\<close>

lemma removeAll_eq_Nil: "removeAll x xs = [] \<longleftrightarrow> set xs \<subseteq> {x}"
  by (induction xs) auto

lemma fst_broadcast_loop_Cons:
  "fst (broadcast_loop ok ac r msg (ws # rest)) =
     (if ok ws then fst (broadcast_loop ok ac r msg rest)
      else fst (broadcast_loop ok (disconnect ac r ws) r msg rest))"
  by (simp split: prod.splits)

lemma snd_broadcast_loop_Cons:
  "snd (broadcast_loop ok ac r msg (ws # rest)) =
     (if ok ws then (ws, msg) # snd (broadcast_loop ok ac r msg rest)
      else snd (broadcast_loop ok (disconnect ac r ws) r msg rest))"
  by (simp split: prod.splits)

lemma setdefault_connect:
  "setdefault (connect ac r ws) r' =
     (if r' = r then List.insert ws (setdefault ac r) else setdefault ac r')"
  by (simp add: setdefault_def connect_def)

lemma connect_no_empty_room: "no_empty_room ac \<Longrightarrow> no_empty_room (connect ac r ws)"
  by (auto simp: no_empty_room_def connect_def List.insert_def)

lemma disconnect_no_empty_room: "no_empty_room ac \<Longrightarrow> no_empty_room (disconnect ac r ws)"
  by (auto simp: no_empty_room_def disconnect_def split: option.splits)

lemma disconnect_other_room: "r' \<noteq> r \<Longrightarrow> disconnect ac r ws r' = ac r'"
  by (simp add: disconnect_def split: option.splits)

lemma sessions_disconnect:
  "sessions (disconnect ac r ws) r' = (if r' = r then sessions ac r - {ws} else sessions ac r')"
  by (auto simp: sessions_def setdefault_def disconnect_def removeAll_eq_Nil split: option.splits)

lemma broadcast_loop_no_empty_room:
  "no_empty_room ac \<Longrightarrow> no_empty_room (fst (broadcast_loop ok ac r msg wss))"
  by (induction wss arbitrary: ac)
     (simp_all add: fst_broadcast_loop_Cons disconnect_no_empty_room del: broadcast_loop.simps(2))

lemma broadcast_loop_other_room:
  "r' \<noteq> r \<Longrightarrow> fst (broadcast_loop ok ac r msg wss) r' = ac r'"
  by (induction wss arbitrary: ac)
     (simp_all add: fst_broadcast_loop_Cons disconnect_other_room del: broadcast_loop.simps(2))

lemma broadcast_loop_sessions:
  "sessions (fst (broadcast_loop ok ac r msg wss)) r = sessions ac r - {ws \<in> set wss. \<not> ok ws}"
  by (induction wss arbitrary: ac)
     (auto simp: fst_broadcast_loop_Cons sessions_disconnect simp del: broadcast_loop.simps(2))

lemma broadcast_loop_sent:
  "snd (broadcast_loop ok ac r msg wss) = map (\<lambda>ws. (ws, msg)) (filter ok wss)"
  by (induction wss arbitrary: ac)
     (simp_all add: snd_broadcast_loop_Cons del: broadcast_loop.simps(2))

lemma apply_op_no_empty_room: "no_empty_room ac \<Longrightarrow> no_empty_room (apply_op ac op)"
  by (cases op)
     (simp_all add: connect_no_empty_room disconnect_no_empty_room broadcast_def
        broadcast_loop_no_empty_room)

lemma apply_ops_no_empty_room: "no_empty_room ac \<Longrightarrow> no_empty_room (apply_ops ac ops)"
  by (induction ops arbitrary: ac) (simp_all add: apply_op_no_empty_room)

lemma disconnect_None: "ac r' = None \<Longrightarrow> disconnect ac r ws r' = None"
  by (cases "r' = r") (simp_all add: disconnect_def split: option.splits)

lemma broadcast_loop_None: "ac r' = None \<Longrightarrow> fst (broadcast_loop ok ac r msg wss) r' = None"
  by (induction wss arbitrary: ac)
     (simp_all add: fst_broadcast_loop_Cons disconnect_None del: broadcast_loop.simps(2))

lemma apply_op_None:
  "ac r = None \<Longrightarrow> \<forall>ws. op \<noteq> Connect r ws \<Longrightarrow> apply_op ac op r = None"
  by (cases op) (auto simp: connect_def disconnect_None broadcast_def broadcast_loop_None)

lemma apply_ops_None:
  "ac r = None \<Longrightarrow> \<forall>ws. Connect r ws \<notin> set ops \<Longrightarrow> apply_ops ac ops r = None"
proof (induction ops arbitrary: ac)
  case Nil
  then show ?case by simp
next
  case (Cons op ops)
  from Cons.prems have "apply_op ac op r = None"
    by (intro apply_op_None) auto
  with Cons show ?case by simp
qed

lemma disconnect_last: "sessions ac r = {ws} \<Longrightarrow> disconnect ac r ws r = None"
  by (auto simp: sessions_def setdefault_def disconnect_def removeAll_eq_Nil split: option.splits)

lemma manager_init_no_empty_room: "no_empty_room manager_init"
  by (simp add: no_empty_room_def manager_init_def)

text \<open>
  C6. A broadcast on a room delivers the event to every session registered on the room
  when it is called, except those whose send fails: the deliveries are exactly the
  registered sessions whose send succeeds, each with the event. After the call the
  room's set is the set before without the sessions whose send failed, so a failed
  session is gone and a failure stops no other delivery.
\<close>

theorem broadcast_delivers_and_evicts:
  "snd (broadcast send_ok ac room_id message) =
     map (\<lambda>ws. (ws, message)) (filter send_ok (setdefault ac room_id))
   \<and> sessions (fst (broadcast send_ok ac room_id message)) room_id =
     sessions ac room_id - {ws. \<not> send_ok ws}"
proof -
  have "sessions ac room_id - {ws \<in> set (setdefault ac room_id). \<not> send_ok ws} =
        sessions ac room_id - {ws. \<not> send_ok ws}"
    by (auto simp: sessions_def)
  then show ?thesis
    by (simp add: broadcast_def broadcast_loop_sent broadcast_loop_sessions)
qed

text \<open>
  C8. The dictionary of the manager never holds a room with an empty set: this holds
  after every sequence of connect, disconnect and broadcast from the empty dictionary,
  and every such sequence keeps it from any dictionary where it holds. A room that no
  connect of the sequence names has no entry, and a disconnect of the only session of a
  room removes the room's entry.
\<close>

theorem registry_never_holds_empty_room:
  "no_empty_room (apply_ops manager_init ops)
   \<and> (no_empty_room ac \<longrightarrow> no_empty_room (apply_ops ac ops))
   \<and> ((\<forall>ws. Connect room_id ws \<notin> set ops) \<longrightarrow> apply_ops manager_init ops room_id = None)
   \<and> (sessions ac room_id = {ws} \<longrightarrow> disconnect ac room_id ws room_id = None)"
proof -
  have "manager_init room_id = None"
    by (simp add: manager_init_def)
  then have "apply_ops manager_init ops room_id = None" if "\<forall>ws. Connect room_id ws \<notin> set ops"
    using that by (rule apply_ops_None)
  then show ?thesis
    by (simp add: apply_ops_no_empty_room manager_init_no_empty_room disconnect_last)
qed

theorem registry_never_holds_empty_room_witness:
  "no_empty_room (apply_ops (connect manager_init 1 7) [Connect 2 8, Broadcast 2 (\<lambda>ws. False)])
   \<and> apply_ops manager_init [Connect 2 8, Broadcast 2 (\<lambda>ws. False)] 1 = None
   \<and> disconnect (connect manager_init 1 7) 1 7 1 = None"
proof -
  have inv: "no_empty_room (connect manager_init 1 7)"
    by (simp add: connect_no_empty_room manager_init_no_empty_room)
  have fresh: "\<forall>ws. Connect 1 ws \<notin> set [Connect 2 8, Broadcast 2 (\<lambda>ws. False)]"
    by simp
  have last: "sessions (connect manager_init 1 7) 1 = {7}"
    by (simp add: sessions_def setdefault_def connect_def manager_init_def)
  show ?thesis
    using registry_never_holds_empty_room
      [of "[Connect 2 8, Broadcast 2 (\<lambda>ws. False)]" "connect manager_init 1 7" 1 7]
      inv fresh last
    by simp
qed

section \<open>Properties of the name assignment\<close>

lemma py_getitem_in_range:
  "0 \<le> i \<Longrightarrow> i < int (length xs) \<Longrightarrow> py_getitem xs i = Inr (xs ! nat i)"
  by (simp add: py_getitem_def)

lemma assign_name_total:
  assumes "catalog \<noteq> []"
  shows "assign_name catalog cid =
           Inr (catalog ! nat ((cid - 1) mod int (length catalog)))"
proof -
  from assms have pos: "0 < int (length catalog)" by simp
  then have "0 \<le> (cid - 1) mod int (length catalog)"
    and "(cid - 1) mod int (length catalog) < int (length catalog)"
    by simp_all
  then show ?thesis
    using pos by (simp add: assign_name_def py_mod_def py_getitem_in_range)
qed

lemma assign_name_cong:
  assumes "a mod int (length catalog) = b mod int (length catalog)"
  shows "assign_name catalog a = assign_name catalog b"
proof -
  from assms have "(a - 1) mod int (length catalog) = (b - 1) mod int (length catalog)"
    by (rule mod_diff_cong) simp
  then show ?thesis by (simp add: assign_name_def py_mod_def)
qed

lemma length_CHAT_NAMES: "length CHAT_NAMES = 28"
  by (simp add: CHAT_NAMES_def)

text \<open>
  C7. The name of a conversation is the catalog's entry at index (id - 1) mod N: for a
  catalog of N > 0 names the index is inside the catalog and the assignment returns that
  entry, for every id (the positive ones among them); ids that are congruent modulo N
  (equal ids among them) get the same name. At the source's list N is 28.
\<close>

theorem name_is_catalog_entry:
  "(catalog \<noteq> [] \<longrightarrow>
      nat ((cid - 1) mod int (length catalog)) < length catalog
      \<and> assign_name catalog cid =
          Inr (catalog ! nat ((cid - 1) mod int (length catalog))))
   \<and> (a mod int (length catalog) = b mod int (length catalog) \<longrightarrow>
        assign_name catalog a = assign_name catalog b)
   \<and> chat_name cid = Inr (CHAT_NAMES ! nat ((cid - 1) mod 28))
   \<and> (a mod 28 = b mod 28 \<longrightarrow> chat_name a = chat_name b)"
proof -
  have idx: "nat ((cid - 1) mod int (length catalog)) < length catalog" if "catalog \<noteq> []"
    using that by (simp add: nat_less_iff)
  have "CHAT_NAMES \<noteq> []"
    using length_CHAT_NAMES by auto
  then have "chat_name cid = Inr (CHAT_NAMES ! nat ((cid - 1) mod int (length CHAT_NAMES)))"
    unfolding chat_name_def by (rule assign_name_total)
  then have at28: "chat_name cid = Inr (CHAT_NAMES ! nat ((cid - 1) mod 28))"
    by (simp only: length_CHAT_NAMES of_nat_numeral)
  have cong28: "chat_name a = chat_name b" if "a mod 28 = b mod 28"
  proof -
    from that have "a mod int (length CHAT_NAMES) = b mod int (length CHAT_NAMES)"
      by (simp only: length_CHAT_NAMES of_nat_numeral)
    then show ?thesis
      unfolding chat_name_def by (rule assign_name_cong)
  qed
  show ?thesis
    using idx at28 cong28 assign_name_total [of catalog cid] assign_name_cong [of a catalog b]
    by blast
qed

theorem name_is_catalog_entry_witness:
  "assign_name [''Ana'', ''Luis'', ''Eva''] 5 = Inr ''Luis''
   \<and> assign_name [''Ana'', ''Luis'', ''Eva''] 2 = assign_name [''Ana'', ''Luis'', ''Eva''] 5
   \<and> chat_name 30 = Inr (''Jorge M'' @ [CHR 0xC3, CHR 0xA9] @ ''ndez'')
   \<and> chat_name 2 = chat_name 30"
proof -
  note inst = name_is_catalog_entry [of "[''Ana'', ''Luis'', ''Eva'']" 5 2 5]
  note inst28 = name_is_catalog_entry [of "[''Ana'', ''Luis'', ''Eva'']" 30 2 30]
  from inst [THEN conjunct1]
  have one: "assign_name [''Ana'', ''Luis'', ''Eva''] 5 = Inr ''Luis''"
    by simp
  from inst [THEN conjunct2, THEN conjunct1]
  have two: "assign_name [''Ana'', ''Luis'', ''Eva''] 2 = assign_name [''Ana'', ''Luis'', ''Eva''] 5"
    by simp
  from inst28 [THEN conjunct2, THEN conjunct2, THEN conjunct1]
  have three: "chat_name 30 = Inr (''Jorge M'' @ [CHR 0xC3, CHR 0xA9] @ ''ndez'')"
    by (simp add: CHAT_NAMES_def)
  from inst28 [THEN conjunct2, THEN conjunct2, THEN conjunct2]
  have four: "chat_name 2 = chat_name 30"
    by simp
  from one two three four show ?thesis
    by (intro conjI)
qed

section \<open>Properties of send_message\<close>

lemma participant_row_None_iff:
  "participant_row db cid uid = None \<longleftrightarrow>
     (cid, uid) \<notin> set (map (\<lambda>p. (cp_conversation_id p, cp_user_id p)) (participants db))"
  by (auto simp: participant_row_def find_None_iff)

lemma send_message_forbidden:
  "in_int64 cid \<Longrightarrow> participant_row db cid (body_sender_id body) = None \<Longrightarrow>
     send_message send_ok now db manager cid body =
       \<lparr>response = Inl HTTP_403_FORBIDDEN, db_after = db, manager_after = manager, delivered = []\<rparr>"
  by (simp add: send_message_def)

lemma send_message_out_of_range:
  "\<not> in_int64 cid \<Longrightarrow>
     send_message send_ok now db manager cid body =
       \<lparr>response = Inl HTTP_500_INTERNAL_SERVER_ERROR, db_after = db, manager_after = manager,
        delivered = []\<rparr>"
  by (simp add: send_message_def)

lemma send_message_persists:
  "in_int64 cid \<Longrightarrow> participant_row db cid (body_sender_id body) = Some p \<Longrightarrow>
     response (send_message send_ok now db manager cid body) =
       Inr (new_message db now cid (body_sender_id body) (body_content body))
     \<and> db_after (send_message send_ok now db manager cid body) =
       add_message db (new_message db now cid (body_sender_id body) (body_content body))"
  by (simp add: send_message_def Let_def)

lemma new_message_sent_unread:
  "msg_status (new_message db now cid sender txt) = ''sent''
   \<and> msg_is_read (new_message db now cid sender txt) = False
   \<and> msg_content (new_message db now cid sender txt) = txt"
  by (simp add: new_message_def)

lemma no_conversation_no_participant:
  assumes "participants_reference db" and "cid \<notin> set (map conv_id (conversations db))"
  shows "participant_row db cid uid = None"
  using assms by (auto simp: participant_row_None_iff participants_reference_def)

text \<open>
  C10, as amended. When every participant row names a conversation of the table (the
  foreign key of the schema), a send to a conversation id that the table does not hold
  finds no participant row: for an id of the 64-bit range the handler answers 403
  Forbidden (it has no 404), and for an id outside the range the lookup itself raises
  and the answer is 500. The tables are unchanged and nothing is broadcast in both
  cases.
\<close>

theorem send_to_missing_conversation:
  assumes "participants_reference db"
    and "conversation_id \<notin> set (map conv_id (conversations db))"
  shows "response (send_message send_ok now db manager conversation_id body) =
           (if in_int64 conversation_id then Inl HTTP_403_FORBIDDEN
            else Inl HTTP_500_INTERNAL_SERVER_ERROR)
         \<and> db_after (send_message send_ok now db manager conversation_id body) = db
         \<and> delivered (send_message send_ok now db manager conversation_id body) = []"
proof (cases "in_int64 conversation_id")
  case True
  with no_conversation_no_participant [OF assms, of "body_sender_id body"] show ?thesis
    by (simp add: send_message_forbidden)
next
  case False
  then show ?thesis
    by (simp add: send_message_out_of_range)
qed

theorem send_to_missing_conversation_witness:
  "response (send_message (\<lambda>ws. True) 5 db_pair (connect manager_init 99 3) 99
      \<lparr>body_content = ''hi'', body_sender_id = ''A''\<rparr>) = Inl HTTP_403_FORBIDDEN
   \<and> db_after (send_message (\<lambda>ws. True) 5 db_pair (connect manager_init 99 3) 99
      \<lparr>body_content = ''hi'', body_sender_id = ''A''\<rparr>) = db_pair
   \<and> delivered (send_message (\<lambda>ws. True) 5 db_pair (connect manager_init 99 3) 99
      \<lparr>body_content = ''hi'', body_sender_id = ''A''\<rparr>) = []"
proof -
  have r: "participants_reference db_pair"
    by (simp add: participants_reference_def db_pair_def)
  have m: "99 \<notin> set (map conv_id (conversations db_pair))"
    by (simp add: db_pair_def)
  have i: "in_int64 99"
    by (simp add: in_int64_def)
  from send_to_missing_conversation [OF r m, of "\<lambda>ws. True" 5 "connect manager_init 99 3"
         "\<lparr>body_content = ''hi'', body_sender_id = ''A''\<rparr>"] i
  show ?thesis
    by simp
qed

text \<open>
  C10 as stated fails for a conversation id outside the 64-bit range: no conversation
  has the id 9223372036854775808, and the send is answered 500, not 403.
\<close>

theorem send_out_of_range_counterexample:
  "9223372036854775808 \<notin> set (map conv_id (conversations db_pair))
   \<and> response (send_message (\<lambda>ws. True) 5 db_pair manager_init 9223372036854775808
        \<lparr>body_content = ''hi'', body_sender_id = ''A''\<rparr>) = Inl HTTP_500_INTERNAL_SERVER_ERROR
   \<and> response (send_message (\<lambda>ws. True) 5 db_pair manager_init 9223372036854775808
        \<lparr>body_content = ''hi'', body_sender_id = ''A''\<rparr>) \<noteq> Inl HTTP_403_FORBIDDEN"
  by (simp add: send_message_def in_int64_def db_pair_def)

text \<open>
  C2, at the input where the code leaves the claim. A is a participant of conversation 7
  and sends the empty string: the handler answers with the new message, whose content is
  empty, status "sent" and is_read false, and the message is in the table after the
  call. No validation error is raised.
\<close>

theorem send_accepts_empty_content:
  "response (send_message send_ok 5 db_pair manager 7 \<lparr>body_content = [], body_sender_id = ''A''\<rparr>)
     = Inr \<lparr>msg_id = 2, msg_conversation_id = 7, msg_sender_id = ''A'', msg_content = [],
            msg_timestamp = 5, msg_status = ''sent'', msg_is_read = False\<rparr>
   \<and> messages (db_after (send_message send_ok 5 db_pair manager 7
        \<lparr>body_content = [], body_sender_id = ''A''\<rparr>))
     = [msg_hello,
        \<lparr>msg_id = 2, msg_conversation_id = 7, msg_sender_id = ''A'', msg_content = [],
         msg_timestamp = 5, msg_status = ''sent'', msg_is_read = False\<rparr>]"
  by (simp add: send_message_def participant_row_def db_pair_def new_message_def add_message_def
        next_id_def msg_hello_def Let_def in_int64_def)

section \<open>Properties of mark_conversation_read\<close>

lemma mark_conversation_read_checked:
  assumes "uid \<noteq> []" and "in_int64 cid"
    and "find (\<lambda>c. conv_id c = cid) (conversations db) = Some c"
    and "participant_row db cid uid = Some p"
  shows "db_after (mark_conversation_read bc_ran send_ok db manager cid (Some uid)) =
           mark_read db cid uid"
    and "response (mark_conversation_read bc_ran send_ok db manager cid (Some uid)) =
           (if 0 < marked_count db cid uid then Inl HTTP_500_INTERNAL_SERVER_ERROR
            else Inr \<lparr>resp_ok = True, updated_count = 0, resp_conversation_id = cid\<rparr>)"
  using assms
  by (simp_all add: mark_conversation_read_def mark_conversation_read_try_def Let_def
        case_prod_beta)

lemma mark_conversation_read_no_conversation:
  assumes "uid \<noteq> []" and "in_int64 cid" and "find (\<lambda>c. conv_id c = cid) (conversations db) = None"
  shows "fst (mark_conversation_read_try bc_ran send_ok db manager cid uid) =
           Inl (HTTPException HTTP_404_NOT_FOUND)"
    and "mark_conversation_read bc_ran send_ok db manager cid (Some uid) =
           \<lparr>response = Inl HTTP_500_INTERNAL_SERVER_ERROR, db_after = db,
            manager_after = manager, delivered = []\<rparr>"
  using assms by (simp_all add: mark_conversation_read_def mark_conversation_read_try_def)

lemma mark_conversation_read_no_participant:
  assumes "uid \<noteq> []" and "in_int64 cid" and "find (\<lambda>c. conv_id c = cid) (conversations db) = Some c"
    and "participant_row db cid uid = None"
  shows "fst (mark_conversation_read_try bc_ran send_ok db manager cid uid) =
           Inl (HTTPException HTTP_403_FORBIDDEN)"
    and "mark_conversation_read bc_ran send_ok db manager cid (Some uid) =
           \<lparr>response = Inl HTTP_500_INTERNAL_SERVER_ERROR, db_after = db,
            manager_after = manager, delivered = []\<rparr>"
  using assms by (simp_all add: mark_conversation_read_def mark_conversation_read_try_def)

text \<open>
  What the UPDATE does to the table: a row changes exactly when it is of the
  conversation, not sent by the reader and unread; the count is the number of such rows;
  a second UPDATE right after the first matches no row and changes nothing.
\<close>

lemma mark_read_rows:
  "messages (mark_read db cid uid) =
     map (\<lambda>m. if msg_conversation_id m = cid \<and> msg_sender_id m \<noteq> uid \<and> \<not> msg_is_read m
               then m\<lparr>msg_is_read := True, msg_status := ''read''\<rparr> else m) (messages db)"
  by (simp add: mark_read_def to_mark_def)

lemma mark_read_keeps_own:
  "m \<in> set (messages db) \<Longrightarrow> msg_sender_id m = uid \<Longrightarrow> m \<in> set (messages (mark_read db cid uid))"
  by (force simp: mark_read_def to_mark_def)

lemma marked_count_again: "marked_count (mark_read db cid uid) cid uid = 0"
  by (simp add: marked_count_def mark_read_def to_mark_def filter_empty_conv)

lemma mark_read_again: "mark_read (mark_read db cid uid) cid uid = mark_read db cid uid"
  by (simp add: mark_read_def to_mark_def)

lemma mark_conversation_read_again:
  assumes "uid \<noteq> []" and "in_int64 cid"
    and "find (\<lambda>c. conv_id c = cid) (conversations db) = Some c"
    and "participant_row db cid uid = Some p"
  shows "mark_conversation_read bc_ran' send_ok' (mark_read db cid uid) manager cid (Some uid) =
           \<lparr>response = Inr \<lparr>resp_ok = True, updated_count = 0, resp_conversation_id = cid\<rparr>,
            db_after = mark_read db cid uid, manager_after = manager, delivered = []\<rparr>"
proof -
  have "conversations (mark_read db cid uid) = conversations db"
    and "participant_row (mark_read db cid uid) cid uid = participant_row db cid uid"
    by (simp_all add: mark_read_def participant_row_def)
  with assms show ?thesis
    by (simp add: mark_conversation_read_def mark_conversation_read_try_def Let_def
          marked_count_again mark_read_again)
qed

text \<open>
  C4, at the inputs where the code leaves the claim. The conversation 99 does not exist:
  the block raises the 404, and the caller receives 500. The reader "stranger" is not a
  participant of conversation 7: the block raises the 403, and the caller receives 500.
  The tables are unchanged in both cases.
\<close>

theorem mark_read_errors_become_500:
  "fst (mark_conversation_read_try bc_ran send_ok db_empty manager 99 ''reader'') =
     Inl (HTTPException HTTP_404_NOT_FOUND)
   \<and> mark_conversation_read bc_ran send_ok db_empty manager 99 (Some ''reader'') =
     \<lparr>response = Inl HTTP_500_INTERNAL_SERVER_ERROR, db_after = db_empty,
      manager_after = manager, delivered = []\<rparr>
   \<and> fst (mark_conversation_read_try bc_ran send_ok db_pair manager 7 ''stranger'') =
     Inl (HTTPException HTTP_403_FORBIDDEN)
   \<and> mark_conversation_read bc_ran send_ok db_pair manager 7 (Some ''stranger'') =
     \<lparr>response = Inl HTTP_500_INTERNAL_SERVER_ERROR, db_after = db_pair,
      manager_after = manager, delivered = []\<rparr>"
  by (simp add: mark_conversation_read_def mark_conversation_read_try_def db_empty_def
        db_pair_def participant_row_def in_int64_def)

text \<open>
  C3, at the input where the code leaves the claim. Conversation 7 holds one unread
  message from A, and B marks the conversation read: the UPDATE matches one row and the
  message is read in the table after the call, but the caller receives 500 and not the
  count, whether or not the broadcast was run.
\<close>

theorem mark_read_positive_count_500:
  "marked_count db_pair 7 ''B'' = 1
   \<and> messages (db_after (mark_conversation_read bc_ran send_ok db_pair manager 7 (Some ''B''))) =
      [msg_hello\<lparr>msg_status := ''read'', msg_is_read := True\<rparr>]
   \<and> response (mark_conversation_read bc_ran send_ok db_pair manager 7 (Some ''B'')) =
      Inl HTTP_500_INTERNAL_SERVER_ERROR"
proof -
  have c: "find (\<lambda>c. conv_id c = 7) (conversations db_pair) =
             Some \<lparr>conv_id = 7, conv_name = Some ''Mariana Solano''\<rparr>"
    by (simp add: db_pair_def)
  have p: "participant_row db_pair 7 ''B'' = Some \<lparr>cp_id = 2, cp_conversation_id = 7, cp_user_id = ''B''\<rparr>"
    by (simp add: participant_row_def db_pair_def)
  have n: "marked_count db_pair 7 ''B'' = 1"
    by (simp add: marked_count_def db_pair_def to_mark_def msg_hello_def)
  have m: "messages (mark_read db_pair 7 ''B'') = [msg_hello\<lparr>msg_status := ''read'', msg_is_read := True\<rparr>]"
    by (simp add: mark_read_def db_pair_def to_mark_def msg_hello_def)
  have i: "in_int64 7"
    by (simp add: in_int64_def)
  show ?thesis
    using mark_conversation_read_checked [OF _ i c p, of bc_ran send_ok manager] n m
    by simp
qed

section \<open>The status of a message under the handlers\<close>

lemma message_ok_new_message: "message_ok (new_message db now cid sender txt)"
  by (simp add: message_ok_def read_flag_ok_def status_rank_def new_message_def)

lemma not_regressed_refl: "message_ok m \<Longrightarrow> not_regressed m m"
  by (auto simp: message_ok_def not_regressed_def)

lemma list_all2_not_regressed_refl:
  "list_all message_ok ms \<Longrightarrow> list_all2 not_regressed ms ms"
  by (induction ms) (simp_all add: not_regressed_refl)

lemma lifecycle_step_refl:
  "list_all message_ok (messages db) \<Longrightarrow> lifecycle_step db db"
  by (simp add: lifecycle_step_def list_all2_not_regressed_refl)

lemma lifecycle_step_add_message:
  "list_all message_ok (messages db) \<Longrightarrow> message_ok m \<Longrightarrow> lifecycle_step db (add_message db m)"
  by (simp add: lifecycle_step_def add_message_def list_all2_not_regressed_refl)

lemma message_ok_marked:
  "message_ok m \<Longrightarrow> message_ok (m\<lparr>msg_is_read := True, msg_status := ''read''\<rparr>)"
  by (simp add: message_ok_def read_flag_ok_def status_rank_def)

lemma not_regressed_marked:
  "message_ok m \<Longrightarrow> not_regressed m (m\<lparr>msg_is_read := True, msg_status := ''read''\<rparr>)"
  by (auto simp: message_ok_def not_regressed_def status_rank_def split: if_splits)

lemma lifecycle_step_mark_read:
  assumes "list_all message_ok (messages db)"
  shows "lifecycle_step db (mark_read db cid uid)"
proof -
  let ?f = "\<lambda>m. if to_mark cid uid m then m\<lparr>msg_is_read := True, msg_status := ''read''\<rparr> else m"
  have ok: "list_all message_ok (map ?f ms)" if "list_all message_ok ms" for ms
    using that by (induction ms) (simp_all add: message_ok_marked)
  have mono: "list_all2 not_regressed ms (map ?f ms)" if "list_all message_ok ms" for ms
    using that by (induction ms) (simp_all add: not_regressed_marked not_regressed_refl)
  from assms ok mono show ?thesis
    by (simp add: lifecycle_step_def mark_read_def)
qed

lemma send_message_db_after:
  "db_after (send_message send_ok now db manager cid body) = db
   \<or> db_after (send_message send_ok now db manager cid body) =
       add_message db (new_message db now cid (body_sender_id body) (body_content body))"
  by (simp add: send_message_def Let_def split: option.splits)

lemma mark_conversation_read_db_after:
  "db_after (mark_conversation_read bc_ran send_ok db manager cid user) = db
   \<or> (\<exists>uid. db_after (mark_conversation_read bc_ran send_ok db manager cid user) =
         mark_read db cid uid)"
  by (auto simp: mark_conversation_read_def mark_conversation_read_try_def Let_def case_prod_beta
        split: option.splits)

lemma websocket_receive_db_after:
  "ws_db_after (websocket_receive send_ok now db manager ws room data) = db
   \<or> ws_db_after (websocket_receive send_ok now db manager ws room data) =
       add_message db (new_message db now room (the (in_sender_id data)) (the (in_content data)))"
  by (simp add: websocket_receive_def Let_def)

text \<open>
  C5, as amended. When every message of the table has one of the three statuses and an
  is_read that agrees with it, then so has every message after send_message, after
  mark_conversation_read and after a turn of the live channel, and no message of before
  has an earlier status after the call. update_message_status is left out: see the
  counterexample.
\<close>

theorem lifecycle_preserved:
  assumes "list_all message_ok (messages db)"
  shows "lifecycle_step db (db_after (send_message send_ok now db manager cid body))
         \<and> lifecycle_step db (db_after (mark_conversation_read bc_ran send_ok db manager cid user))
         \<and> lifecycle_step db (ws_db_after (websocket_receive send_ok now db manager ws cid data))"
proof (intro conjI)
  show "lifecycle_step db (db_after (send_message send_ok now db manager cid body))"
    using send_message_db_after [of send_ok now db manager cid body] assms
    by (auto simp: lifecycle_step_refl lifecycle_step_add_message message_ok_new_message)
  show "lifecycle_step db (db_after (mark_conversation_read bc_ran send_ok db manager cid user))"
    using mark_conversation_read_db_after [of bc_ran send_ok db manager cid user] assms
    by (auto simp: lifecycle_step_refl lifecycle_step_mark_read)
  show "lifecycle_step db (ws_db_after (websocket_receive send_ok now db manager ws cid data))"
    using websocket_receive_db_after [of send_ok now db manager ws cid data] assms
    by (auto simp: lifecycle_step_refl lifecycle_step_add_message message_ok_new_message)
qed

theorem lifecycle_preserved_witness:
  "lifecycle_step db_pair (db_after (send_message (\<lambda>ws. True) 5 db_pair manager_init 7
       \<lparr>body_content = ''hi'', body_sender_id = ''B''\<rparr>))
   \<and> lifecycle_step db_pair
       (db_after (mark_conversation_read False (\<lambda>ws. True) db_pair manager_init 7 (Some ''B'')))
   \<and> lifecycle_step db_pair (ws_db_after (websocket_receive (\<lambda>ws. True) 5 db_pair manager_init 3 7
       \<lparr>in_content = Some ''hi'', in_sender_id = Some ''B''\<rparr>))"
proof -
  have h: "list_all message_ok (messages db_pair)"
    by (simp add: db_pair_def msg_hello_def message_ok_def read_flag_ok_def status_rank_def)
  show ?thesis
    by (rule lifecycle_preserved [OF h])
qed

text \<open>
  C5 as stated fails at update_message_status. In db_pair the one message is "sent" and
  unread. Setting its status to "read" leaves is_read false; and after B has marked the
  conversation read, setting the status to "sent" moves it back from "read".
\<close>

theorem status_override_counterexample:
  "list_all message_ok (messages db_pair)
   \<and> \<not> list_all message_ok (messages (snd (update_message_status db_pair 1 ''read'')))
   \<and> list_all message_ok (messages (mark_read db_pair 7 ''B''))
   \<and> \<not> list_all2 not_regressed (messages (mark_read db_pair 7 ''B''))
         (messages (snd (update_message_status (mark_read db_pair 7 ''B'') 1 ''sent'')))"
  by (simp add: db_pair_def msg_hello_def update_message_status_def mark_read_def to_mark_def
        message_ok_def read_flag_ok_def status_rank_def not_regressed_def in_int64_def)


section \<open>Properties of websocket_endpoint\<close>


lemma websocket_receive_rejects:
  assumes "falsy (in_content data) \<or> falsy (in_sender_id data)"
  shows "ws_db_after (websocket_receive send_ok now db manager websocket room_id data) = db
         \<and> turn (websocket_receive send_ok now db manager websocket room_id data) =
             (if send_ok websocket then Replied else Closed)"
  using assms by (auto simp: websocket_receive_def)




section \<open>Properties of create_conversation\<close>

text \<open>
  What the query finds: for two different users, \<open>user_count\<close> is 2 exactly when both
  are participants of the conversation. The new conversation gets an id that no row of
  the tables uses.
\<close>

lemma fold_max_bounds:
  "(x::int) \<le> fold max xs x \<and> (\<forall>y \<in> set xs. y \<le> fold max xs x)"
proof (induction xs arbitrary: x)
  case Nil
  then show ?case by simp
next
  case (Cons a xs)
  from Cons [of "max a x"] show ?case
    by auto
qed

lemma next_id_fresh: "x \<in> set ids \<Longrightarrow> x < next_id ids"
  using fold_max_bounds by (cases ids) (fastforce simp: next_id_def)+

lemma user_count_commute: "user_count db a b cid = user_count db b a cid"
proof -
  have "set [a, b] = set [b, a]" by auto
  then show ?thesis by (simp only: user_count_def)
qed

lemma user_count_card:
  "user_count db a b cid = card (participant_set db cid \<inter> {a, b})"
proof -
  have "set (map cp_user_id (filter (\<lambda>p. cp_conversation_id p = cid \<and> cp_user_id p \<in> set [a, b])
              (participants db))) = participant_set db cid \<inter> {a, b}"
    by (auto simp: participant_set_def)
  then show ?thesis
    by (simp add: user_count_def length_remdups_card_conv del: set_map)
qed

lemma user_count_2_iff:
  assumes "a \<noteq> b"
  shows "user_count db a b cid = 2 \<longleftrightarrow> a \<in> participant_set db cid \<and> b \<in> participant_set db cid"
proof
  assume "user_count db a b cid = 2"
  then have c: "card (participant_set db cid \<inter> {a, b}) = 2"
    by (simp add: user_count_card)
  have "participant_set db cid \<inter> {a, b} \<subseteq> {a, b}" by simp
  moreover have "card {a, b} = 2" using assms by simp
  ultimately have "participant_set db cid \<inter> {a, b} = {a, b}"
    using c by (intro card_subset_eq) simp_all
  then show "a \<in> participant_set db cid \<and> b \<in> participant_set db cid"
    by blast
next
  assume "a \<in> participant_set db cid \<and> b \<in> participant_set db cid"
  then have "participant_set db cid \<inter> {a, b} = {a, b}" by blast
  with assms show "user_count db a b cid = 2"
    by (simp add: user_count_card)
qed

lemma user_count_le_1: "user_count db a a cid \<le> 1"
proof -
  have "participant_set db cid \<inter> {a, a} \<subseteq> {a}" by simp
  then have "card (participant_set db cid \<inter> {a, a}) \<le> card {a}"
    by (intro card_mono) simp_all
  then show ?thesis by (simp add: user_count_card)
qed

lemma existing_conv_members:
  assumes "existing_conv db payload = Some c" and "currentUserId payload \<noteq> participantId payload"
  shows "c \<in> set (conversations db)
         \<and> currentUserId payload \<in> participant_set db (conv_id c)
         \<and> participantId payload \<in> participant_set db (conv_id c)"
proof -
  from assms(1) have "c \<in> set (conversations db)"
    and "user_count db (currentUserId payload) (participantId payload) (conv_id c) = 2"
    by (auto simp: existing_conv_def find_Some_iff)
  with assms(2) show ?thesis
    by (simp add: user_count_2_iff)
qed

lemma existing_conv_commute:
  "existing_conv db \<lparr>participantId = a, currentUserId = b, initialMessage = m\<rparr> =
   existing_conv db \<lparr>participantId = b, currentUserId = a, initialMessage = m'\<rparr>"
  by (simp add: existing_conv_def user_count_commute [of db a b])

lemma existing_conv_swap:
  "existing_conv db (payload\<lparr>participantId := currentUserId payload,
                              currentUserId := participantId payload\<rparr>) =
   existing_conv db payload"
  by (simp add: existing_conv_def
        user_count_commute [of db "participantId payload" "currentUserId payload"])

lemma chat_name_Inr: "\<exists>name. chat_name n = Inr name"
proof -
  have "CHAT_NAMES \<noteq> []" using length_CHAT_NAMES by auto
  then show ?thesis
    unfolding chat_name_def by (blast dest: assign_name_total)
qed

lemma fresh_conv_id_no_rows:
  assumes "participants_reference db"
  shows "next_id (map conv_id (conversations db)) \<notin> set (map cp_conversation_id (participants db))"
proof
  assume "next_id (map conv_id (conversations db)) \<in> set (map cp_conversation_id (participants db))"
  with assms have "next_id (map conv_id (conversations db)) \<in> set (map conv_id (conversations db))"
    by (auto simp: participants_reference_def)
  then show False
    using next_id_fresh by blast
qed

lemma participant_set_keys:
  "participant_set db cid =
     {u. (cid, u) \<in> set (map (\<lambda>p. (cp_conversation_id p, cp_user_id p)) (participants db))}"
  by (auto simp: participant_set_def)

lemma find_append_new:
  assumes "find P xs = None" and "P x"
  shows "find P (xs @ [x]) = Some x"
  using assms by (induction xs) (auto split: if_splits)

lemma existing_conv_swapped: "existing_conv db (swapped payload) = existing_conv db payload"
  by (simp add: swapped_def existing_conv_swap)

lemma existing_conv_exact:
  assumes found: "existing_conv db payload = Some c"
    and two: "two_party db"
    and ne: "currentUserId payload \<noteq> participantId payload"
  shows "participant_set db (conv_id c) = {currentUserId payload, participantId payload}"
proof -
  from existing_conv_members [OF found ne]
  have c: "c \<in> set (conversations db)"
    and sub: "{currentUserId payload, participantId payload} \<subseteq> participant_set db (conv_id c)"
    by simp_all
  from two c have "card (participant_set db (conv_id c)) \<le> 2"
    by (simp add: two_party_def list_all_iff)
  moreover have "card {currentUserId payload, participantId payload} = 2"
    using ne by simp
  moreover have "finite (participant_set db (conv_id c))"
    by (simp add: participant_set_def)
  ultimately show ?thesis
    using sub by (metis card_seteq)
qed

lemma create_new_rows:
  assumes ref: "participants_reference db"
    and ne: "currentUserId payload \<noteq> participantId payload"
    and n: "n = next_id (map conv_id (conversations db))"
    and name: "chat_name n = Inr name"
  shows "\<exists>db'.
           create_new now db payload = Inr (db', \<lparr>conv_id = n, conv_name = Some name\<rparr>)
           \<and> conversations db' = conversations db @ [\<lparr>conv_id = n, conv_name = Some name\<rparr>]
           \<and> map (\<lambda>p. (cp_conversation_id p, cp_user_id p)) (participants db') =
               map (\<lambda>p. (cp_conversation_id p, cp_user_id p)) (participants db)
                 @ [(n, participantId payload), (n, currentUserId payload)]"
proof -
  from fresh_conv_id_no_rows [OF ref] n
  have none: "\<And>u. (n, u) \<notin> set (map (\<lambda>p. (cp_conversation_id p, cp_user_id p)) (participants db))"
    by force
  show ?thesis
    using name none ne n [symmetric]
    by (simp add: create_new_def insert_participant_def Let_def add_message_def
          split: option.splits)
qed

lemma pair_count_positive:
  "c \<in> set (conversations db) \<Longrightarrow> participant_set db (conv_id c) = {a, b} \<Longrightarrow> 0 < pair_count db a b"
  by (auto simp: pair_count_def filter_empty_conv)

lemma swapped_fields:
  "currentUserId (swapped payload) = participantId payload"
  "participantId (swapped payload) = currentUserId payload"
  by (simp_all add: swapped_def)

text \<open>
  C1. On tables where every participant row names a conversation of the table and no
  conversation has more than two participants, a call for two different users A and B
  answers with a conversation whose participant set is exactly {A, B}: an existing
  conversation is returned only with this participant set, and then nothing is written.
  The conversation returned is the same when A and B are exchanged. A second call, with
  the users in either order, returns the same conversation and writes nothing; when the
  tables held at most one conversation of A and B before, they hold exactly one after.
  The tables after the call are again of this kind.
\<close>

theorem find_or_create_exact_pair:
  assumes ref: "participants_reference db"
    and two: "two_party db"
    and ne: "currentUserId payload \<noteq> participantId payload"
  shows "\<exists>conv db'.
           create_conversation now db payload = (Inr conv, db')
           \<and> participant_set db' (conv_id conv) = {currentUserId payload, participantId payload}
           \<and> (conv \<in> set (conversations db) \<longrightarrow>
                db' = db
                \<and> participant_set db (conv_id conv) = {currentUserId payload, participantId payload})
           \<and> fst (create_conversation now db (swapped payload)) = Inr conv
           \<and> create_conversation now' db' payload = (Inr conv, db')
           \<and> create_conversation now' db' (swapped payload) = (Inr conv, db')
           \<and> (pair_count db (currentUserId payload) (participantId payload) \<le> 1 \<longrightarrow>
                pair_count db' (currentUserId payload) (participantId payload) = 1)
           \<and> participants_reference db' \<and> two_party db'"
proof (cases "existing_conv db payload")
  case (Some c)
  have exact: "participant_set db (conv_id c) = {currentUserId payload, participantId payload}"
    using Some two ne by (rule existing_conv_exact)
  have mem: "c \<in> set (conversations db)"
    using existing_conv_members [OF Some ne] by simp
  have "0 < pair_count db (currentUserId payload) (participantId payload)"
    using mem exact by (rule pair_count_positive)
  then have count: "pair_count db (currentUserId payload) (participantId payload) \<le> 1 \<longrightarrow>
                     pair_count db (currentUserId payload) (participantId payload) = 1"
    by simp
  have call: "create_conversation t db payload = (Inr c, db)"
    and call': "create_conversation t db (swapped payload) = (Inr c, db)" for t
    using Some by (simp_all add: create_conversation_def existing_conv_swapped)
  show ?thesis
    using exact count call call' ref two
    by (intro exI [of _ c] exI [of _ db]) simp
next
  case None
  define n where "n = next_id (map conv_id (conversations db))"
  obtain name where name: "chat_name n = Inr name"
    using chat_name_Inr by blast
  let ?conv = "\<lparr>conv_id = n, conv_name = Some name\<rparr>"
  let ?a = "currentUserId payload" and ?b = "participantId payload"
  from create_new_rows [OF ref ne n_def name, of now]
  obtain db' where new: "create_new now db payload = Inr (db', ?conv)"
    and convs: "conversations db' = conversations db @ [?conv]"
    and keys: "map (\<lambda>p. (cp_conversation_id p, cp_user_id p)) (participants db') =
               map (\<lambda>p. (cp_conversation_id p, cp_user_id p)) (participants db)
                 @ [(n, ?b), (n, ?a)]"
    by blast
  have ne': "currentUserId (swapped payload) \<noteq> participantId (swapped payload)"
    using ne by (simp add: swapped_fields)
  from create_new_rows [OF ref ne' n_def name, of now]
  obtain db'' where new': "create_new now db (swapped payload) = Inr (db'', ?conv)"
    by blast
  have fresh: "n \<notin> set (map cp_conversation_id (participants db))"
    using fresh_conv_id_no_rows [OF ref] by (simp add: n_def)
  have old: "participant_set db' cid = participant_set db cid" if "cid \<noteq> n" for cid
    using that by (simp add: participant_set_keys keys)
  have "participant_set db n = {}"
    using fresh by (force simp: participant_set_keys)
  then have new_set: "participant_set db' n = {?a, ?b}"
    by (auto simp: participant_set_keys keys)
  have ids: "conv_id c \<noteq> n" if "c \<in> set (conversations db)" for c
    using next_id_fresh [of "conv_id c" "map conv_id (conversations db)"] that
    by (auto simp: n_def)
  then have not_old: "?conv \<notin> set (conversations db)"
    by force
  have no_pair: "\<not> (?a \<in> participant_set db (conv_id c) \<and> ?b \<in> participant_set db (conv_id c))"
    if "c \<in> set (conversations db)" for c
  proof -
    from None that have "user_count db ?a ?b (conv_id c) \<noteq> 2"
      by (auto simp: existing_conv_def find_None_iff)
    then show ?thesis
      using ne by (simp add: user_count_2_iff)
  qed
  have "user_count db' ?a ?b (conv_id c) \<noteq> 2" if "c \<in> set (conversations db)" for c
    using no_pair [OF that] ne old [OF ids [OF that]] by (simp add: user_count_2_iff)
  then have "find (\<lambda>c. user_count db' ?a ?b (conv_id c) = 2) (conversations db) = None"
    by (auto simp: find_None_iff)
  moreover have "user_count db' ?a ?b (conv_id ?conv) = 2"
    using ne new_set by (simp add: user_count_2_iff)
  ultimately have found: "existing_conv db' payload = Some ?conv"
    unfolding existing_conv_def convs by (rule find_append_new)
  have "participant_set db' (conv_id c) \<noteq> {?a, ?b}" if "c \<in> set (conversations db)" for c
    using no_pair [OF that] old [OF ids [OF that]] by auto
  then have "filter (\<lambda>c. participant_set db' (conv_id c) = {?a, ?b}) (conversations db) = []"
    by (simp add: filter_empty_conv)
  then have count: "pair_count db' ?a ?b = 1"
    by (simp add: pair_count_def convs new_set)
  have "map cp_conversation_id (participants db') =
          map fst (map (\<lambda>p. (cp_conversation_id p, cp_user_id p)) (participants db'))"
    by simp
  also have "\<dots> = map cp_conversation_id (participants db) @ [n, n]"
    unfolding keys by simp
  finally have ref': "participants_reference db'"
    using ref by (auto simp: participants_reference_def convs)
  have "card (participant_set db' (conv_id c)) \<le> 2" if "c \<in> set (conversations db)" for c
    using two that old [OF ids [OF that]] by (simp add: two_party_def list_all_iff)
  moreover have "card (participant_set db' n) \<le> 2"
    using ne by (simp add: new_set)
  ultimately have two': "two_party db'"
    by (simp add: two_party_def list_all_iff convs)
  have first: "create_conversation now db payload = (Inr ?conv, db')"
    and first': "fst (create_conversation now db (swapped payload)) = Inr ?conv"
    using None new new' by (simp_all add: create_conversation_def existing_conv_swapped)
  have again: "create_conversation t db' payload = (Inr ?conv, db')"
    and again': "create_conversation t db' (swapped payload) = (Inr ?conv, db')" for t
    using found by (simp_all add: create_conversation_def existing_conv_swapped)
  show ?thesis
    using first first' again again' new_set not_old count ref' two'
    by (intro exI [of _ ?conv] exI [of _ db']) simp
qed

theorem find_or_create_exact_pair_witness:
  "create_conversation 5 db_pair
      \<lparr>participantId = ''B'', currentUserId = ''A'', initialMessage = Some ''hi''\<rparr> =
     (Inr \<lparr>conv_id = 7, conv_name = Some ''Mariana Solano''\<rparr>, db_pair)
   \<and> participant_set db_pair 7 = {''A'', ''B''}
   \<and> fst (create_conversation 5 db_pair
        \<lparr>participantId = ''A'', currentUserId = ''B'', initialMessage = Some ''hi''\<rparr>) =
     Inr \<lparr>conv_id = 7, conv_name = Some ''Mariana Solano''\<rparr>
   \<and> pair_count db_pair ''A'' ''B'' = 1"
proof -
  let ?p = "\<lparr>participantId = ''B'', currentUserId = ''A'', initialMessage = Some ''hi''\<rparr>"
  let ?c = "\<lparr>conv_id = 7, conv_name = Some ''Mariana Solano''\<rparr>"
  have ref: "participants_reference db_pair"
    by (simp add: participants_reference_def db_pair_def)
  have two: "two_party db_pair"
    by (simp add: two_party_def participant_set_def db_pair_def)
  have ne: "currentUserId ?p \<noteq> participantId ?p"
    by simp
  have call: "create_conversation 5 db_pair ?p = (Inr ?c, db_pair)"
    by (simp add: create_conversation_def existing_conv_def user_count_def db_pair_def)
  have count: "pair_count db_pair ''A'' ''B'' \<le> 1"
    by (simp add: pair_count_def db_pair_def)
  from find_or_create_exact_pair [OF ref two ne, of 5 5]
  obtain conv db' where res: "create_conversation 5 db_pair ?p = (Inr conv, db')"
    and exact: "participant_set db' (conv_id conv) = {currentUserId ?p, participantId ?p}"
    and order: "fst (create_conversation 5 db_pair (swapped ?p)) = Inr conv"
    and one: "pair_count db_pair (currentUserId ?p) (participantId ?p) \<le> 1 \<longrightarrow>
              pair_count db' (currentUserId ?p) (participantId ?p) = 1"
    by blast
  from res call have eq: "conv = ?c" "db' = db_pair"
    by simp_all
  from exact eq have "participant_set db_pair 7 = {''A'', ''B''}"
    by simp
  moreover from order eq
  have "fst (create_conversation 5 db_pair
          \<lparr>participantId = ''A'', currentUserId = ''B'', initialMessage = Some ''hi''\<rparr>) = Inr ?c"
    by (simp add: swapped_def)
  moreover from one eq count have "pair_count db_pair ''A'' ''B'' = 1"
    by simp
  ultimately show ?thesis
    using call by simp
qed

text \<open>
  The hypothesis on the tables is needed: the subquery counts, for a conversation, the
  distinct users among the rows of the two users only. In \<open>db_trio\<close>, which no handler
  writes, conversation 1 has the three participants A, B and C and is the answer for the
  pair (A, B).
\<close>

lemma third_participant_is_ignored:
  "create_conversation now db_trio
      \<lparr>participantId = ''B'', currentUserId = ''A'', initialMessage = None\<rparr> =
     (Inr \<lparr>conv_id = 1, conv_name = None\<rparr>, db_trio)
   \<and> participant_set db_trio 1 = {''A'', ''B'', ''C''}
   \<and> \<not> two_party db_trio"
  by (simp add: create_conversation_def existing_conv_def user_count_def db_trio_def
        participant_set_def two_party_def)

end
